theory Spec2Isabelle
  imports Complex_Main "HOL-Library.AList"
begin

section \<open>Data model of \<open>molecule-builder-app.py\<close>\<close>

text \<open>
  The three dataclasses of the source. Coordinates are Python numbers (the default
  attachment points are written with integer literals, the form layer passes floats);
  a coordinate is kept as the real number it denotes.

  \<open>MolecularComponent\<close> and \<open>AttachmentPoint\<close> both have a field \<open>name\<close> in the source;
  the second one is called \<open>point_name\<close> here, since two records of one theory cannot
  share a field name.
\<close>

record MolecularComponent =
  name :: string
  shape :: string
  color :: string
  label :: string

record AttachmentPoint =
  point_name :: string
  position :: "real \<times> real"

text \<open>
  A Python \<open>dict\<close> keeps its keys in insertion order and \<open>visualize_molecule\<close> iterates
  over \<open>attached_sugars.items()\<close> and \<open>attached_substituents.items()\<close>, so these two
  dictionaries are association lists; \<open>AList.update\<close> replaces the value of a present
  key in place and puts a new key at the end, which is what \<open>d[k] = v\<close> does.
  The values are lists of pairs \<open>(component, direction)\<close>.

  The field \<open>attachment_points\<close> of \<open>Molecule\<close> is the very dictionary object of the
  builder (\<open>attachment_points=self.attachment_points\<close>) and is never read through the
  molecule; it is kept once, in the builder.
\<close>

type_synonym attached = "(string \<times> (MolecularComponent \<times> string) list) list"

record Molecule =
  scaffold :: MolecularComponent
  attached_sugars :: attached
  attached_substituents :: attached

record MoleculeBuilder =
  scaffolds :: "string \<rightharpoonup> MolecularComponent"
  sugars :: "string \<rightharpoonup> MolecularComponent"
  substituents :: "string \<rightharpoonup> MolecularComponent"
  attachment_points :: "string \<rightharpoonup> AttachmentPoint"
  molecule :: Molecule

text \<open>
  Every failure of the source is a \<open>ValueError\<close> with its own message; the constructors
  carry the names the specification gives to the five messages. \<open>KeyError\<close> is what a
  subscript \<open>d[k]\<close> on a missing key raises, and \<open>ValueError\<close> stands for a
  \<open>ValueError\<close> that matplotlib raises while the figure is drawn.
\<close>

datatype error =
    InvalidShape               \<comment> \<open>"Invalid shape: ..."\<close>
  | InvalidColor               \<comment> \<open>"Invalid color value: ..."\<close>
  | DuplicateAttachmentPoint   \<comment> \<open>"Attachment point '...' already exists."\<close>
  | UnknownAttachmentPoint     \<comment> \<open>"Invalid attachment point: ..."\<close>
  | UnknownComponent           \<comment> \<open>"Component '...' does not exist in category '...'."\<close>
  | KeyError
  | ValueError

section \<open>\<open>MoleculeBuilder.__init__\<close>\<close>

definition mc :: "string \<Rightarrow> string \<Rightarrow> string \<Rightarrow> string \<Rightarrow> MolecularComponent" where
  "mc n s c l = \<lparr>name = n, shape = s, color = c, label = l\<rparr>"

definition pt :: "string \<Rightarrow> real \<times> real \<Rightarrow> AttachmentPoint" where
  "pt n p = \<lparr>point_name = n, position = p\<rparr>"

definition default_scaffolds :: "(string \<times> MolecularComponent) list" where
  "default_scaffolds =
    [(''QA'', mc ''QA'' ''hexagon'' ''lime'' ''QA''),
     (''QA-OH'', mc ''QA'' ''hexagon'' ''limegreen'' ''QA-OH''),
     (''BA'', mc ''BA'' ''hexagon'' ''red'' ''BA''),
     (''P'', mc ''BA'' ''hexagon'' ''gray'' ''P''),
     (''P-Ac'', mc ''BA'' ''hexagon'' ''gainsboro'' ''P-Ac''),
     (''G'', mc ''BA'' ''hexagon'' ''magenta'' ''G''),
     (''E'', mc ''BA'' ''hexagon'' ''goldenrod'' ''E''),
     (''E-A'', mc ''BA'' ''hexagon'' ''gold'' ''E-A'')]"

definition default_sugars :: "(string \<times> MolecularComponent) list" where
  "default_sugars =
    [(''XYL'', mc ''XYL'' ''circle'' ''#228B22'' ''Xyl''),
     (''FUC'', mc ''FUC'' ''circle'' ''#DC143C'' ''Fuc''),
     (''GLU'', mc ''GLU'' ''circle'' ''#9370DB'' ''Glu''),
     (''RHA'', mc ''RHA'' ''circle'' ''#FFD700'' ''Rha''),
     (''ARA'', mc ''RHA'' ''circle'' ''cyan'' ''Ara''),
     (''GAL'', mc ''RHA'' ''circle'' ''orange'' ''Gal'')]"

definition default_substituents :: "(string \<times> MolecularComponent) list" where
  "default_substituents =
    [(''H'', mc ''H'' ''circle'' ''none'' ''H''),
     (''Acyl'', mc ''Acyl'' ''circle'' ''none'' ''Ac''),
     (''OH'', mc ''OH'' ''circle'' ''none'' ''OH''),
     (''OHMeHex'', mc ''OHMeHex'' ''circle'' ''none'' ''OHMeHex'')]"

definition default_attachment_points :: "(string \<times> AttachmentPoint) list" where
  "default_attachment_points =
    [(''Zero'', pt ''Zero'' (0, 0)),
     (''FRight'', pt ''FR'' (1, 0)),
     (''FLeft'', pt ''FL'' (-1, 0)),
     (''SRight'', pt ''FR'' (2, 0)),
     (''SLeft'', pt ''FL'' (-2, 0))]"

text \<open>
  The state after \<open>MoleculeBuilder()\<close>. The dictionary literals have no repeated key, so
  \<open>map_of\<close> reads them as Python does. \<open>self.scaffolds['QA']\<close> is present.
\<close>

definition init :: MoleculeBuilder where
  "init =
    \<lparr>scaffolds = map_of default_scaffolds,
     sugars = map_of default_sugars,
     substituents = map_of default_substituents,
     attachment_points = map_of default_attachment_points,
     molecule = \<lparr>scaffold = mc ''QA'' ''hexagon'' ''lime'' ''QA'',
                 attached_sugars = [],
                 attached_substituents = []\<rparr>\<rparr>"

section \<open>The mutating operations\<close>

text \<open>
  Each method takes the builder and returns the exception it raised, if any, with the
  builder as the method left it. All raises of the source come before the first
  assignment of their method.
\<close>

definition add_attachment_point ::
  "MoleculeBuilder \<Rightarrow> string \<Rightarrow> real \<times> real \<Rightarrow> error option \<times> MoleculeBuilder" where
  "add_attachment_point self n p =
    (if attachment_points self n \<noteq> None then (Some DuplicateAttachmentPoint, self)
     else (None, self\<lparr>attachment_points := (attachment_points self)(n \<mapsto> pt n p)\<rparr>))"

definition VALID_SHAPES :: "string list" where
  "VALID_SHAPES = [''hexagon'', ''circle'']"

text \<open>
  \<open>add_component\<close> validates the color by calling \<open>plt.plot(c=color)\<close> and catching
  \<open>ValueError\<close>. \<open>plt.plot\<close> is matplotlib's, not this repository's, so whether the call
  raises is the parameter \<open>plot_raises\<close>. A category other than the three named ones
  stores nothing and raises nothing.
\<close>

definition add_component ::
  "(string \<Rightarrow> bool) \<Rightarrow> MoleculeBuilder \<Rightarrow> string \<Rightarrow> string \<Rightarrow> string \<Rightarrow> string \<Rightarrow> string
     \<Rightarrow> error option \<times> MoleculeBuilder" where
  "add_component plot_raises self n shp col lbl category =
    (if shp \<notin> set VALID_SHAPES then (Some InvalidShape, self)
     else if plot_raises col then (Some InvalidColor, self)
     else
       let component = mc n shp col lbl in
       if category = ''Sugar'' then (None, self\<lparr>sugars := (sugars self)(n \<mapsto> component)\<rparr>)
       else if category = ''Substituent''
         then (None, self\<lparr>substituents := (substituents self)(n \<mapsto> component)\<rparr>)
       else if category = ''Scaffold''
         then (None, self\<lparr>scaffolds := (scaffolds self)(n \<mapsto> component)\<rparr>)
       else (None, self))"

text \<open>
  What matplotlib does with \<open>plt.plot(c=color)\<close>: the call has no data arguments, so no
  line is built, the keyword is never parsed as a color, and an empty list is returned
  whatever the string is.
\<close>

definition plot_no_data_raises :: "string \<Rightarrow> bool" where
  "plot_no_data_raises col = False"

text \<open>
  The two statements
  \<open>if parent_point not in d: d[parent_point] = []\<close> and
  \<open>d[parent_point].append((component, direction))\<close>.
\<close>

definition append_attached ::
  "attached \<Rightarrow> string \<Rightarrow> MolecularComponent \<times> string \<Rightarrow> error + attached" where
  "append_attached d k x =
    (let d1 = (if map_of d k = None then AList.update k [] d else d) in
     case map_of d1 k of
       None \<Rightarrow> Inl KeyError
     | Some l \<Rightarrow> Inr (AList.update k (l @ [x]) d1))"

text \<open>
  \<open>if not component\<close> is true only for \<open>None\<close>: a dataclass instance defines neither
  \<open>__bool__\<close> nor \<open>__len__\<close>.
\<close>

definition attach_component ::
  "MoleculeBuilder \<Rightarrow> string \<Rightarrow> string \<Rightarrow> string \<Rightarrow> string \<Rightarrow> error option \<times> MoleculeBuilder" where
  "attach_component self parent_point component_name direction category =
    (if attachment_points self parent_point = None then (Some UnknownAttachmentPoint, self)
     else
       case (if category = ''Sugar'' then sugars self component_name
             else substituents self component_name) of
         None \<Rightarrow> (Some UnknownComponent, self)
       | Some component \<Rightarrow>
           if category = ''Sugar'' then
             (case append_attached (attached_sugars (molecule self)) parent_point
                     (component, direction) of
                Inl e \<Rightarrow> (Some e, self)
              | Inr d \<Rightarrow> (None, self\<lparr>molecule := (molecule self)\<lparr>attached_sugars := d\<rparr>\<rparr>))
           else
             (case append_attached (attached_substituents (molecule self)) parent_point
                     (component, direction) of
                Inl e \<Rightarrow> (Some e, self)
              | Inr d \<Rightarrow> (None, self\<lparr>molecule := (molecule self)\<lparr>attached_substituents := d\<rparr>\<rparr>)))"

text \<open>
  The form layer's \<open>builder.molecule.scaffold = builder.scaffolds[scaffold]\<close>.
\<close>

definition select_scaffold :: "MoleculeBuilder \<Rightarrow> string \<Rightarrow> error option \<times> MoleculeBuilder" where
  "select_scaffold self k =
    (case scaffolds self k of
       None \<Rightarrow> (Some KeyError, self)
     | Some c \<Rightarrow> (None, self\<lparr>molecule := (molecule self)\<lparr>scaffold := c\<rparr>\<rparr>))"

section \<open>What rendering takes from Python and matplotlib\<close>

text \<open>
  \<open>visualize_molecule\<close> computes with Python floats and hands colors and labels to
  matplotlib. Neither is code of this repository, so the three things the rendering
  depends on are parameters:
  \<^item> \<open>round64\<close>: the binary64 value to which Python rounds an exact result; an operation
    with a float operand converts both operands and rounds the result;
  \<^item> \<open>is_color\<close>: the strings matplotlib parses as a color; the constructors
    \<open>FancyBboxPatch\<close> and \<open>plt.Circle\<close> raise \<open>ValueError\<close> on any other face color;
  \<^item> \<open>mathtext_ok\<close>: the strings matplotlib can lay out as a text; \<open>plt.tight_layout()\<close>
    raises \<open>ValueError\<close> when a text of the axes is ill-formed mathtext.
  Nothing is assumed of the three. A coordinate is the real number that a Python int or
  float denotes; infinities and NaN are not modelled.
\<close>

record environment =
  round64 :: "real \<Rightarrow> real"
  is_color :: "string \<Rightarrow> bool"
  mathtext_ok :: "string \<Rightarrow> bool"

definition float_add :: "environment \<Rightarrow> real \<Rightarrow> real \<Rightarrow> real" where
  "float_add E a b = round64 E (round64 E a + round64 E b)"

definition float_sub :: "environment \<Rightarrow> real \<Rightarrow> real \<Rightarrow> real" where
  "float_sub E a b = round64 E (round64 E a - round64 E b)"

definition float_mul :: "environment \<Rightarrow> real \<Rightarrow> real \<Rightarrow> real" where
  "float_mul E a b = round64 E (round64 E a * round64 E b)"

definition float_div :: "environment \<Rightarrow> real \<Rightarrow> real \<Rightarrow> real" where
  "float_div E a b = round64 E (round64 E a / round64 E b)"

section \<open>Rendering\<close>

text \<open>
  What \<open>draw_shape\<close> adds to the axes, in the order it adds it. Of the constant styling
  (black edge, line width 2, opacity 1, bold centred text, the box style) only the sizes
  are kept: \<open>FancyBboxPatch\<close> has its corner, width, height and face color, \<open>Circle\<close> its
  centre, radius and face color, \<open>Text\<close> its anchor, string and font size.

  The patch is constructed before anything is added, so a face color that does not
  parse raises with the axes as they were. A shape other than the two named ones draws
  nothing and constructs nothing.
\<close>

datatype artist =
    FancyBboxPatch "real \<times> real" real real string
  | Circle "real \<times> real" real string
  | Text "real \<times> real" string nat

definition draw_shape ::
  "environment \<Rightarrow> string \<Rightarrow> artist list \<Rightarrow> real \<times> real \<Rightarrow> string \<Rightarrow> string
     \<Rightarrow> error + artist list" where
  "draw_shape E shape_type ax pos col lbl =
    (if shape_type = ''hexagon'' then
       let width = round64 E (1 / 10); height = round64 E (1 / 10) in
       if \<not> is_color E col then Inl ValueError
       else Inr (ax @ [FancyBboxPatch (float_sub E (fst pos) (float_div E width 2),
                                      float_sub E (snd pos) (float_div E height 2))
                         width height col,
                       Text (fst pos, snd pos) lbl 13])
     else if shape_type = ''circle'' then
       if \<not> is_color E col then Inl ValueError
       else Inr (ax @ [Circle pos (round64 E (1 / 2)) col, Text (fst pos, snd pos) lbl 8])
     else Inr ax)"

text \<open>
  The table \<open>{"Right": (1, 0), "Left": (-1, 0), "Up": (0, 1), "Down": (0, -1)}\<close> read
  with \<open>.get(direction, (1, 0))\<close>.
\<close>

definition direction_vector :: "string \<Rightarrow> real \<times> real" where
  "direction_vector direction =
    (case map_of [(''Right'', (1, 0)), (''Left'', (-1, 0)), (''Up'', (0, 1)), (''Down'', (0, -1))]
            direction of
       Some v \<Rightarrow> v
     | None \<Rightarrow> (1, 0))"

text \<open>
  The drawing state of \<open>visualize_molecule\<close>: the axes and the local list
  \<open>all_positions\<close>, to which every computed \<open>component_position\<close> is appended.

  \<open>draw_components\<close> is the inner loop \<open>for i, (component, direction) in enumerate(...)\<close>
  at one point; \<open>i\<close> is the counter of \<open>enumerate\<close>. The source has the loop twice, once
  for the sugars and once for the substituents, with the same body.
  \<open>self.attachment_points[point]\<close> is a subscript and raises \<open>KeyError\<close> on a missing key.
  An exception of \<open>draw_shape\<close> ends the loop and the method.
\<close>

type_synonym canvas = "artist list \<times> (real \<times> real) list"

fun draw_components ::
  "environment \<Rightarrow> (string \<rightharpoonup> AttachmentPoint) \<Rightarrow> string \<Rightarrow> nat
     \<Rightarrow> (MolecularComponent \<times> string) list \<Rightarrow> canvas \<Rightarrow> error + canvas" where
  "draw_components E aps point i [] cv = Inr cv"
| "draw_components E aps point i ((component, direction) # rest) (ax, all_positions) =
    (case aps point of
       None \<Rightarrow> Inl KeyError
     | Some ap \<Rightarrow>
         let dv = direction_vector direction;
             component_position =
               (float_add E (fst (position ap)) (float_mul E (fst dv) 1),
                float_add E (snd (position ap)) (float_mul E (snd dv) 1))
         in case draw_shape E (shape component) ax component_position (color component)
                   (label component) of
              Inl e \<Rightarrow> Inl e
            | Inr ax' \<Rightarrow>
                draw_components E aps point (Suc i) rest
                  (ax', all_positions @ [component_position]))"

text \<open>The outer loop \<open>for point, components in d.items()\<close>.\<close>

fun draw_attached ::
  "environment \<Rightarrow> (string \<rightharpoonup> AttachmentPoint) \<Rightarrow> attached \<Rightarrow> canvas \<Rightarrow> error + canvas" where
  "draw_attached E aps [] cv = Inr cv"
| "draw_attached E aps ((point, components) # rest) cv =
    (case draw_components E aps point 0 components cv of
       Inl e \<Rightarrow> Inl e
     | Inr cv' \<Rightarrow> draw_attached E aps rest cv')"

text \<open>
  The body of \<open>visualize_molecule\<close> up to the end of the second loop: the scaffold at
  \<open>scaffold_pos = (0, 0)\<close>, then the sugars, then the substituents.
\<close>

definition draw_molecule :: "environment \<Rightarrow> MoleculeBuilder \<Rightarrow> error + canvas" where
  "draw_molecule E self =
    (let scaffold_pos = (0, 0);
         sc = scaffold (molecule self);
         all_positions = [scaffold_pos]
     in case draw_shape E (shape sc) [] scaffold_pos (color sc) (label sc) of
          Inl e \<Rightarrow> Inl e
        | Inr ax \<Rightarrow>
            (case draw_attached E (attachment_points self) (attached_sugars (molecule self))
                    (ax, all_positions) of
               Inl e \<Rightarrow> Inl e
             | Inr cv \<Rightarrow>
                 draw_attached E (attachment_points self)
                   (attached_substituents (molecule self)) cv))"

text \<open>
  \<open>plt.tight_layout()\<close> lays out every text of the axes.
\<close>

fun text_ok :: "environment \<Rightarrow> artist \<Rightarrow> bool" where
  "text_ok E (Text p s n) = mathtext_ok E s"
| "text_ok E (FancyBboxPatch p w h c) = True"
| "text_ok E (Circle p r c) = True"

text \<open>
  The returned figure, as far as the method itself settles it: \<open>figsize=(10, 4)\<close> and the
  artists in the order of their addition. The limits that the method asks for are
  adjusted by matplotlib (\<open>set_aspect('equal', adjustable='datalim')\<close>), and are not part
  of this description. The method assigns to no field of \<open>self\<close>, so the builder comes
  back as it was.
\<close>

record Figure =
  figsize :: "nat \<times> nat"
  artists :: "artist list"

definition visualize_molecule ::
  "environment \<Rightarrow> MoleculeBuilder \<Rightarrow> (error + Figure) \<times> MoleculeBuilder" where
  "visualize_molecule E self =
    (case draw_molecule E self of
       Inl e \<Rightarrow> (Inl e, self)
     | Inr (ax, all_positions) \<Rightarrow>
         if list_all (text_ok E) ax
         then (Inr \<lparr>figsize = (10, 4), artists = ax\<rparr>, self)
         else (Inl ValueError, self))"

section \<open>Reachable states\<close>

text \<open>
  The states a session can be in: the constructor's, and what any method call leaves
  behind, whether it raised or not. \<open>visualize_molecule\<close> changes nothing.
\<close>

inductive reachable :: "MoleculeBuilder \<Rightarrow> bool" where
  reachable_init: "reachable init"
| reachable_add_attachment_point:
    "reachable s \<Longrightarrow> reachable (snd (add_attachment_point s n p))"
| reachable_add_component:
    "reachable s \<Longrightarrow> reachable (snd (add_component plot_raises s n shp col lbl category))"
| reachable_attach_component:
    "reachable s \<Longrightarrow> reachable (snd (attach_component s p c d category))"
| reachable_select_scaffold:
    "reachable s \<Longrightarrow> reachable (snd (select_scaffold s k))"

text \<open>Every key of the two attachment dictionaries is a registered attachment point.\<close>

definition points_registered :: "MoleculeBuilder \<Rightarrow> bool" where
  "points_registered s \<longleftrightarrow>
    (\<forall>k \<in> fst ` set (attached_sugars (molecule s)) \<union>
            fst ` set (attached_substituents (molecule s)).
       attachment_points s k \<noteq> None)"

section \<open>The layout and the drawing as the specification describes them\<close>

text \<open>
  The specification's layout resolver (4.4): Up is (0, 1), Down is (0, -1), Left is
  (-1, 0), Right is (1, 0), any other value is Right; the position is the attachment
  point's position plus the direction vector times 1.0, in the arithmetic of floats.
\<close>

definition spec_direction_vector :: "string \<Rightarrow> real \<times> real" where
  "spec_direction_vector d =
    (if d = ''Up'' then (0, 1)
     else if d = ''Down'' then (0, - 1)
     else if d = ''Left'' then (- 1, 0)
     else (1, 0))"

definition spec_position :: "environment \<Rightarrow> real \<times> real \<Rightarrow> string \<Rightarrow> real \<times> real" where
  "spec_position E p d =
    (float_add E (fst p) (float_mul E (fst (spec_direction_vector d)) 1),
     float_add E (snd p) (float_mul E (snd (spec_direction_vector d)) 1))"

text \<open>
  The specification's shapes (4.5, step 3): a hexagon is a box of side 0.1 centred at
  the position with the label in size 13, a circle is a disk of radius 0.5 centred at
  the position with the label in size 8, each filled with the component's color.
\<close>

definition spec_shape :: "environment \<Rightarrow> MolecularComponent \<Rightarrow> real \<times> real \<Rightarrow> artist list" where
  "spec_shape E c p =
    (if shape c = ''hexagon'' then
       [FancyBboxPatch (float_sub E (fst p) (float_div E (round64 E (1 / 10)) 2),
                        float_sub E (snd p) (float_div E (round64 E (1 / 10)) 2))
          (round64 E (1 / 10)) (round64 E (1 / 10)) (color c),
        Text p (label c) 13]
     else if shape c = ''circle'' then
       [Circle p (round64 E (1 / 2)) (color c), Text p (label c) 8]
     else [])"

text \<open>
  The specification's order (4.5, step 2): the entries of a dictionary in their order,
  and the items of an entry in theirs, each at its resolved position.
\<close>

definition spec_components ::
  "environment \<Rightarrow> AttachmentPoint \<Rightarrow> (MolecularComponent \<times> string) list \<Rightarrow> artist list" where
  "spec_components E ap comps =
    concat (map (\<lambda>(c, d). spec_shape E c (spec_position E (position ap) d)) comps)"

definition spec_attached ::
  "environment \<Rightarrow> (string \<rightharpoonup> AttachmentPoint) \<Rightarrow> attached \<Rightarrow> artist list" where
  "spec_attached E aps al =
    concat (map (\<lambda>(point, comps).
                   case aps point of None \<Rightarrow> [] | Some ap \<Rightarrow> spec_components E ap comps) al)"

text \<open>
  The components of a dictionary, in the order of drawing; a component that matplotlib
  can draw (its color parses, if it has one of the two shapes); and one that it can
  also lay out (its label is well-formed as well).
\<close>

definition attached_components :: "attached \<Rightarrow> MolecularComponent list" where
  "attached_components al = map fst (concat (map snd al))"

definition drawable :: "environment \<Rightarrow> MolecularComponent \<Rightarrow> bool" where
  "drawable E c \<longleftrightarrow> shape c \<notin> set VALID_SHAPES \<or> is_color E (color c)"

definition renderable :: "environment \<Rightarrow> MolecularComponent \<Rightarrow> bool" where
  "renderable E c \<longleftrightarrow>
     shape c \<notin> set VALID_SHAPES \<or> (is_color E (color c) \<and> mathtext_ok E (label c))"

section \<open>Auxiliary facts\<close>

lemma append_attached_eq:
  "append_attached d k x =
     Inr (AList.update k ((case map_of d k of None \<Rightarrow> [] | Some l \<Rightarrow> l) @ [x]) d)"
  by (auto simp: append_attached_def Let_def AList.update_conv' split: option.splits)

lemma direction_vector_spec: "direction_vector d = spec_direction_vector d"
  by (simp add: direction_vector_def spec_direction_vector_def)

lemma direction_vector_default:
  "d \<notin> {''Up'', ''Down'', ''Left'', ''Right''} \<Longrightarrow>
     direction_vector d = direction_vector ''Right''"
  by (simp add: direction_vector_def)

lemma draw_shape_spec:
  "draw_shape E (shape c) ax p (color c) (label c) =
     (if drawable E c then Inr (ax @ spec_shape E c p) else Inl ValueError)"
  by (simp add: draw_shape_def drawable_def spec_shape_def VALID_SHAPES_def Let_def)

lemma draw_components_index:
  "draw_components E aps point i comps cv = draw_components E aps point j comps cv"
proof (induction comps arbitrary: i j cv)
  case Nil
  show ?case by simp
next
  case (Cons a comps)
  obtain c d where a: "a = (c, d)" by (cases a)
  obtain ax ps where cv: "cv = (ax, ps)" by (cases cv)
  show ?case
    unfolding a cv using Cons.IH [of "Suc i" _ "Suc j"]
    by (simp add: Let_def split: option.splits sum.splits)
qed

lemma draw_components_spec:
  "aps point = Some ap \<Longrightarrow>
   draw_components E aps point i comps (ax, ps) =
     (if list_all (\<lambda>(c, d). drawable E c) comps
      then Inr (ax @ spec_components E ap comps,
                ps @ map (\<lambda>(c, d). spec_position E (position ap) d) comps)
      else Inl ValueError)"
proof (induction comps arbitrary: i ax ps)
  case Nil
  show ?case by (simp add: spec_components_def)
next
  case (Cons a comps)
  obtain c d where a: "a = (c, d)" by (cases a)
  have pos: "(float_add E (fst (position ap)) (float_mul E (fst (direction_vector d)) 1),
              float_add E (snd (position ap)) (float_mul E (snd (direction_vector d)) 1))
             = spec_position E (position ap) d"
    by (simp add: spec_position_def direction_vector_spec)
  show ?case
  proof (cases "drawable E c")
    case True
    show ?thesis
      unfolding a using Cons.prems True
      by (simp add: Let_def pos draw_shape_spec Cons.IH [OF Cons.prems] spec_components_def)
  next
    case False
    show ?thesis
      unfolding a using Cons.prems False
      by (simp add: Let_def pos draw_shape_spec)
  qed
qed

lemma draw_attached_spec:
  "\<forall>k \<in> fst ` set al. aps k \<noteq> None \<Longrightarrow>
     (list_all (drawable E) (attached_components al) \<longrightarrow>
        (\<exists>ps'. draw_attached E aps al (ax, ps) = Inr (ax @ spec_attached E aps al, ps'))) \<and>
     (\<not> list_all (drawable E) (attached_components al) \<longrightarrow>
        draw_attached E aps al (ax, ps) = Inl ValueError)"
proof (induction al arbitrary: ax ps)
  case Nil
  show ?case by (simp add: spec_attached_def attached_components_def)
next
  case (Cons a al)
  obtain point comps where a: "a = (point, comps)" by (cases a)
  from Cons.prems obtain ap where ap: "aps point = Some ap"
    by (auto simp: a)
  from Cons.prems have rest: "\<forall>k \<in> fst ` set al. aps k \<noteq> None"
    by simp
  have comps: "list_all (drawable E) (map fst comps) = list_all (\<lambda>(c, d). drawable E c) comps"
    by (simp add: list_all_iff split_beta)
  have split: "attached_components ((point, comps) # al) =
      map fst comps @ attached_components al"
    by (simp add: attached_components_def)
  have spec: "spec_attached E aps ((point, comps) # al) =
      spec_components E ap comps @ spec_attached E aps al"
    by (simp add: spec_attached_def ap)
  show ?case
  proof (cases "list_all (\<lambda>(c, d). drawable E c) comps")
    case True
    have step: "draw_components E aps point 0 comps (ax, ps) =
        Inr (ax @ spec_components E ap comps,
             ps @ map (\<lambda>(c, d). spec_position E (position ap) d) comps)"
      using True by (simp add: draw_components_spec [where aps = aps and point = point, OF ap])
    show ?thesis
      using Cons.IH [OF rest, of "ax @ spec_components E ap comps"
          "ps @ map (\<lambda>(c, d). spec_position E (position ap) d) comps"] True
      by (simp add: a step split spec comps)
  next
    case False
    have step: "draw_components E aps point 0 comps (ax, ps) = Inl ValueError"
      using False by (simp add: draw_components_spec [where aps = aps and point = point, OF ap])
    show ?thesis
      using False by (simp add: a step split comps)
  qed
qed

lemma text_ok_spec_shape:
  "list_all (text_ok E) (spec_shape E c p) \<longleftrightarrow>
     shape c \<notin> set VALID_SHAPES \<or> mathtext_ok E (label c)"
  by (simp add: spec_shape_def VALID_SHAPES_def)

lemma text_ok_spec_components:
  "list_all (text_ok E) (spec_components E ap comps) \<longleftrightarrow>
     list_all (\<lambda>c. shape c \<notin> set VALID_SHAPES \<or> mathtext_ok E (label c)) (map fst comps)"
  by (induction comps) (auto simp: spec_components_def text_ok_spec_shape)

lemma text_ok_spec_attached:
  "\<forall>k \<in> fst ` set al. aps k \<noteq> None \<Longrightarrow>
     list_all (text_ok E) (spec_attached E aps al) \<longleftrightarrow>
       list_all (\<lambda>c. shape c \<notin> set VALID_SHAPES \<or> mathtext_ok E (label c))
         (attached_components al)"
proof (induction al)
  case Nil
  show ?case by (simp add: spec_attached_def attached_components_def)
next
  case (Cons a al)
  obtain point comps where a: "a = (point, comps)" by (cases a)
  from Cons.prems obtain ap where ap: "aps point = Some ap"
    by (auto simp: a)
  from Cons.prems have rest: "\<forall>k \<in> fst ` set al. aps k \<noteq> None"
    by simp
  have split: "attached_components (a # al) = map fst comps @ attached_components al"
    by (simp add: attached_components_def a)
  have spec: "spec_attached E aps (a # al) = spec_components E ap comps @ spec_attached E aps al"
    by (simp add: spec_attached_def a ap)
  show ?case
    using Cons.IH [OF rest] by (simp add: split spec text_ok_spec_components)
qed

lemma renderable_iff:
  "list_all (renderable E) cs \<longleftrightarrow>
     list_all (drawable E) cs \<and>
     list_all (\<lambda>c. shape c \<notin> set VALID_SHAPES \<or> mathtext_ok E (label c)) cs"
  by (auto simp: list_all_iff renderable_def drawable_def)

lemma points_registered_init: "points_registered init"
  by (simp add: points_registered_def init_def)

lemma points_registered_add_attachment_point:
  "points_registered s \<Longrightarrow> points_registered (snd (add_attachment_point s n p))"
  by (auto simp: points_registered_def add_attachment_point_def)

lemma points_registered_add_component:
  "points_registered s \<Longrightarrow>
     points_registered (snd (add_component plot_raises s n shp col lbl category))"
  by (simp add: points_registered_def add_component_def Let_def)

lemma points_registered_select_scaffold:
  "points_registered s \<Longrightarrow> points_registered (snd (select_scaffold s k))"
  by (simp add: points_registered_def select_scaffold_def split: option.splits)

lemma points_registered_attach_component:
  "points_registered s \<Longrightarrow> points_registered (snd (attach_component s p c d category))"
  by (auto simp: points_registered_def attach_component_def append_attached_eq
      AList.dom_update split: option.splits)

lemma reachable_points_registered: "reachable s \<Longrightarrow> points_registered s"
proof (induction rule: reachable.induct)
  case reachable_init
  show ?case by (rule points_registered_init)
next
  case (reachable_add_attachment_point s n p)
  then show ?case by (simp add: points_registered_add_attachment_point)
next
  case (reachable_add_component s plot_raises n shp col lbl category)
  then show ?case by (simp add: points_registered_add_component)
next
  case (reachable_attach_component s p c d category)
  then show ?case by (simp add: points_registered_attach_component)
next
  case (reachable_select_scaffold s k)
  then show ?case by (simp add: points_registered_select_scaffold)
qed

text \<open>
  With every attached key registered, the artists of \<open>draw_molecule\<close> are those of the
  scaffold, of the sugars and of the substituents, in this order, and it fails exactly
  when the color of a component to draw does not parse.
\<close>

lemma draw_molecule_spec:
  assumes "points_registered self"
  shows "(list_all (drawable E)
            (scaffold (molecule self) # attached_components (attached_sugars (molecule self)) @
             attached_components (attached_substituents (molecule self))) \<longrightarrow>
          (\<exists>ps. draw_molecule E self =
             Inr (spec_shape E (scaffold (molecule self)) (0, 0) @
                  spec_attached E (attachment_points self) (attached_sugars (molecule self)) @
                  spec_attached E (attachment_points self)
                    (attached_substituents (molecule self)), ps))) \<and>
         (\<not> list_all (drawable E)
            (scaffold (molecule self) # attached_components (attached_sugars (molecule self)) @
             attached_components (attached_substituents (molecule self))) \<longrightarrow>
          draw_molecule E self = Inl ValueError)"
proof -
  let ?aps = "attachment_points self"
  let ?sc = "scaffold (molecule self)"
  let ?su = "attached_sugars (molecule self)"
  let ?sb = "attached_substituents (molecule self)"
  have ksu: "\<forall>k \<in> fst ` set ?su. ?aps k \<noteq> None"
    using assms by (simp add: points_registered_def)
  have ksb: "\<forall>k \<in> fst ` set ?sb. ?aps k \<noteq> None"
    using assms by (simp add: points_registered_def)
  show ?thesis
  proof (cases "drawable E ?sc")
    case False
    then show ?thesis
      by (simp add: draw_molecule_def Let_def draw_shape_spec)
  next
    case sc: True
    show ?thesis
    proof (cases "list_all (drawable E) (attached_components ?su)")
      case False
      then show ?thesis
        using sc draw_attached_spec [OF ksu, of E "spec_shape E ?sc (0, 0)" "[(0, 0)]"]
        by (simp add: draw_molecule_def Let_def draw_shape_spec)
    next
      case su: True
      then obtain ps1 where
        s1: "draw_attached E ?aps ?su (spec_shape E ?sc (0, 0), [(0, 0)]) =
               Inr (spec_shape E ?sc (0, 0) @ spec_attached E ?aps ?su, ps1)"
        using draw_attached_spec [OF ksu, of E "spec_shape E ?sc (0, 0)" "[(0, 0)]"] by blast
      show ?thesis
        using sc su s1
          draw_attached_spec [OF ksb, of E "spec_shape E ?sc (0, 0) @ spec_attached E ?aps ?su" ps1]
        by (auto simp: draw_molecule_def Let_def draw_shape_spec)
    qed
  qed
qed

lemma visualize_molecule_keeps_builder: "snd (visualize_molecule E self) = self"
  by (simp add: visualize_molecule_def split: sum.splits prod.splits)

section \<open>The component registry\<close>

text \<open>
  Whatever \<open>plt.plot\<close> does, \<open>add_component\<close> with a valid shape reports an invalid color
  exactly when that call raises, and a call that fails leaves the builder as it was.
\<close>

lemma add_component_InvalidColor_iff:
  "shp \<in> set VALID_SHAPES \<Longrightarrow>
     fst (add_component plot_raises self n shp col lbl category) = Some InvalidColor
       \<longleftrightarrow> plot_raises col"
  by (simp add: add_component_def Let_def)

lemma add_component_failure_unchanged:
  "fst (add_component plot_raises self n shp col lbl category) = Some e \<Longrightarrow>
     snd (add_component plot_raises self n shp col lbl category) = self"
  by (simp add: add_component_def Let_def split: if_splits)

text \<open>
  C1. The claim: with a valid shape, \<open>add_component\<close> fails with \<open>InvalidColor\<close> exactly
  when the color parses neither as a named nor as a hex color and is not "none".
  The code validates with \<open>plt.plot(c=color)\<close>, a call without data, which reads no
  color: the string "notacolor" is accepted and stored in the sugar registry.
\<close>

theorem C1_unparsable_color_is_stored:
  "add_component plot_no_data_raises init ''X'' ''circle'' ''notacolor'' ''X'' ''Sugar'' =
     (None, init\<lparr>sugars := (sugars init)(''X'' \<mapsto>
        \<lparr>name = ''X'', shape = ''circle'', color = ''notacolor'', label = ''X''\<rparr>)\<rparr>)"
  by (simp add: add_component_def plot_no_data_raises_def VALID_SHAPES_def mc_def)

section \<open>The attachment point registry\<close>

text \<open>
  C5. The claim: the names of the stored attachment points are unique across the
  registry in every reachable state, the default one included. In the default
  registry the points under the keys \<open>FRight\<close> and \<open>SRight\<close> are both named \<open>FR\<close>, and
  those under \<open>FLeft\<close> and \<open>SLeft\<close> are both named \<open>FL\<close>.
\<close>

theorem C5_default_point_names_repeat:
  "attachment_points init ''FRight'' = Some \<lparr>point_name = ''FR'', position = (1, 0)\<rparr> \<and>
   attachment_points init ''SRight'' = Some \<lparr>point_name = ''FR'', position = (2, 0)\<rparr> \<and>
   attachment_points init ''FLeft'' = Some \<lparr>point_name = ''FL'', position = (- 1, 0)\<rparr> \<and>
   attachment_points init ''SLeft'' = Some \<lparr>point_name = ''FL'', position = (- 2, 0)\<rparr>"
  by (simp add: init_def default_attachment_points_def pt_def)

text \<open>
  C7. \<open>add_attachment_point\<close> with a name that is already a key fails with
  \<open>DuplicateAttachmentPoint\<close> and changes nothing, so the stored entry stays; with a
  fresh name it stores a new point under that name, with that name and the given
  position. After any call the name is a key, so a second call with it fails.
\<close>

theorem C7_add_attachment_point:
  "(attachment_points self n \<noteq> None \<longrightarrow>
      add_attachment_point self n p = (Some DuplicateAttachmentPoint, self)) \<and>
   (attachment_points self n = None \<longrightarrow>
      add_attachment_point self n p =
        (None, self\<lparr>attachment_points :=
                 (attachment_points self)(n \<mapsto> \<lparr>point_name = n, position = p\<rparr>)\<rparr>)) \<and>
   add_attachment_point (snd (add_attachment_point self n p)) n p' =
     (Some DuplicateAttachmentPoint, snd (add_attachment_point self n p))"
  by (simp add: add_attachment_point_def pt_def)

theorem C7_witness:
  "attachment_points init ''Zero'' \<noteq> None \<and>
   add_attachment_point init ''Zero'' (5, 5) = (Some DuplicateAttachmentPoint, init) \<and>
   attachment_points init ''Top'' = None \<and>
   attachment_points (snd (add_attachment_point init ''Top'' (0, 3))) ''Top'' =
     Some \<lparr>point_name = ''Top'', position = (0, 3)\<rparr>"
  using C7_add_attachment_point [of init "''Zero''" "(5, 5)" "(0, 0)"]
    C7_add_attachment_point [of init "''Top''" "(0, 3)" "(0, 0)"]
  by (simp add: init_def default_attachment_points_def)

section \<open>Attaching components\<close>

text \<open>
  C3. \<open>attach_component\<close> fails with \<open>UnknownAttachmentPoint\<close> when the point is not a
  key of the attachment point registry, whatever the category. With a registered
  point and the category Sugar (Substituent), it fails with \<open>UnknownComponent\<close> when the
  component name is not in the sugar (substituent) registry; otherwise it succeeds
  and the new \<open>attached_sugars\<close> (\<open>attached_substituents\<close>) has, under the point, the
  sequence it had there, or the empty one if the point was not a key, with the pair
  of the component and the direction added at its end. Nothing else changes, and a
  failed call changes nothing at all.
\<close>

theorem C3_attach_component:
  "(attachment_points self p = None \<longrightarrow>
      attach_component self p c d category = (Some UnknownAttachmentPoint, self)) \<and>
   (attachment_points self p \<noteq> None \<and> sugars self c = None \<longrightarrow>
      attach_component self p c d ''Sugar'' = (Some UnknownComponent, self)) \<and>
   (attachment_points self p \<noteq> None \<and> substituents self c = None \<longrightarrow>
      attach_component self p c d ''Substituent'' = (Some UnknownComponent, self)) \<and>
   (attachment_points self p \<noteq> None \<and> sugars self c = Some component \<longrightarrow>
      attach_component self p c d ''Sugar'' =
        (None, self\<lparr>molecule := (molecule self)\<lparr>attached_sugars :=
           AList.update p
             ((case map_of (attached_sugars (molecule self)) p of
                 None \<Rightarrow> [] | Some l \<Rightarrow> l) @ [(component, d)])
             (attached_sugars (molecule self))\<rparr>\<rparr>)) \<and>
   (attachment_points self p \<noteq> None \<and> substituents self c = Some component \<longrightarrow>
      attach_component self p c d ''Substituent'' =
        (None, self\<lparr>molecule := (molecule self)\<lparr>attached_substituents :=
           AList.update p
             ((case map_of (attached_substituents (molecule self)) p of
                 None \<Rightarrow> [] | Some l \<Rightarrow> l) @ [(component, d)])
             (attached_substituents (molecule self))\<rparr>\<rparr>))"
  by (simp add: attach_component_def append_attached_eq)

theorem C3_witness:
  "attachment_points init ''Nowhere'' = None \<and>
   attach_component init ''Nowhere'' ''XYL'' ''Up'' ''Sugar'' = (Some UnknownAttachmentPoint, init) \<and>
   attachment_points init ''Zero'' \<noteq> None \<and> sugars init ''OH'' = None \<and>
   attach_component init ''Zero'' ''OH'' ''Up'' ''Sugar'' = (Some UnknownComponent, init) \<and>
   substituents init ''XYL'' = None \<and>
   attach_component init ''Zero'' ''XYL'' ''Up'' ''Substituent'' = (Some UnknownComponent, init) \<and>
   sugars init ''XYL'' = Some (mc ''XYL'' ''circle'' ''#228B22'' ''Xyl'') \<and>
   attach_component init ''Zero'' ''XYL'' ''Up'' ''Sugar'' =
     (None, init\<lparr>molecule := (molecule init)\<lparr>attached_sugars :=
        [(''Zero'', [(mc ''XYL'' ''circle'' ''#228B22'' ''Xyl'', ''Up'')])]\<rparr>\<rparr>) \<and>
   substituents init ''OH'' = Some (mc ''OH'' ''circle'' ''none'' ''OH'') \<and>
   attach_component init ''Zero'' ''OH'' ''Left'' ''Substituent'' =
     (None, init\<lparr>molecule := (molecule init)\<lparr>attached_substituents :=
        [(''Zero'', [(mc ''OH'' ''circle'' ''none'' ''OH'', ''Left'')])]\<rparr>\<rparr>)"
  using C3_attach_component [of init "''Nowhere''" "''XYL''" "''Up''" "''Sugar''"
      "mc ''XYL'' ''circle'' ''#228B22'' ''Xyl''"]
    C3_attach_component [of init "''Zero''" "''OH''" "''Up''" "''Sugar''"
      "mc ''OH'' ''circle'' ''none'' ''OH''"]
    C3_attach_component [of init "''Zero''" "''XYL''" "''Up''" "''Substituent''"
      "mc ''XYL'' ''circle'' ''#228B22'' ''Xyl''"]
    C3_attach_component [of init "''Zero''" "''OH''" "''Left''" "''Substituent''"
      "mc ''OH'' ''circle'' ''none'' ''OH''"]
  by (simp add: init_def default_attachment_points_def default_sugars_def
      default_substituents_def)

text \<open>
  C10. A category other than "Sugar", whatever the string, is handled as
  "Substituent" is: the component is looked up in the substituent registry, and on
  success the pair goes to the end of the point's sequence in
  \<open>attached_substituents\<close>.
\<close>

theorem C10_other_category_is_Substituent:
  "category \<noteq> ''Sugar'' \<Longrightarrow>
     attach_component self p c d category = attach_component self p c d ''Substituent'' \<and>
     (attachment_points self p \<noteq> None \<and> substituents self c = None \<longrightarrow>
        attach_component self p c d category = (Some UnknownComponent, self)) \<and>
     (attachment_points self p \<noteq> None \<and> substituents self c = Some component \<longrightarrow>
        attach_component self p c d category =
          (None, self\<lparr>molecule := (molecule self)\<lparr>attached_substituents :=
             AList.update p
               ((case map_of (attached_substituents (molecule self)) p of
                   None \<Rightarrow> [] | Some l \<Rightarrow> l) @ [(component, d)])
               (attached_substituents (molecule self))\<rparr>\<rparr>))"
  by (auto simp: attach_component_def append_attached_eq split: option.splits)

theorem C10_witness:
  "''Scaffold'' \<noteq> ''Sugar'' \<and>
   attachment_points init ''Zero'' \<noteq> None \<and>
   substituents init ''QA'' = None \<and> scaffolds init ''QA'' \<noteq> None \<and>
   attach_component init ''Zero'' ''QA'' ''Up'' ''Scaffold'' = (Some UnknownComponent, init) \<and>
   substituents init ''OH'' = Some (mc ''OH'' ''circle'' ''none'' ''OH'') \<and>
   attach_component init ''Zero'' ''OH'' ''Up'' ''Scaffold'' =
     (None, init\<lparr>molecule := (molecule init)\<lparr>attached_substituents :=
        [(''Zero'', [(mc ''OH'' ''circle'' ''none'' ''OH'', ''Up'')])]\<rparr>\<rparr>) \<and>
   attach_component init ''Zero'' ''OH'' ''Up'' ''anything else'' =
     attach_component init ''Zero'' ''OH'' ''Up'' ''Substituent''"
  using C10_other_category_is_Substituent [of "''Scaffold''" init "''Zero''" "''QA''" "''Up''"
      "mc ''OH'' ''circle'' ''none'' ''OH''"]
    C10_other_category_is_Substituent [of "''Scaffold''" init "''Zero''" "''OH''" "''Up''"
      "mc ''OH'' ''circle'' ''none'' ''OH''"]
    C10_other_category_is_Substituent [of "''anything else''" init "''Zero''" "''OH''" "''Up''"
      "mc ''OH'' ''circle'' ''none'' ''OH''"]
  by (simp add: init_def default_attachment_points_def default_scaffolds_def
      default_substituents_def mc_def pt_def attach_component_def append_attached_def)

section \<open>Layout\<close>

text \<open>
  C4. A direction string other than Up, Down, Left and Right has the vector of Right,
  and a component attached with it is drawn exactly where it would be with Right, at
  any point and any index, whatever the arithmetic and the colors are.
\<close>

theorem C4_unrecognized_direction_is_Right:
  "d \<notin> {''Up'', ''Down'', ''Left'', ''Right''} \<Longrightarrow>
     direction_vector d = direction_vector ''Right'' \<and>
     draw_components E aps point i ((c, d) # rest) cv =
       draw_components E aps point i ((c, ''Right'') # rest) cv"
proof -
  assume d: "d \<notin> {''Up'', ''Down'', ''Left'', ''Right''}"
  have dv: "direction_vector d = direction_vector ''Right''"
    using d by (rule direction_vector_default)
  obtain ax ps where cv: "cv = (ax, ps)" by (cases cv)
  show ?thesis
    unfolding cv by (simp add: dv Let_def split: option.splits)
qed

theorem C4_witness:
  "''Sideways'' \<notin> {''Up'', ''Down'', ''Left'', ''Right''} \<and>
   [] \<notin> {''Up'', ''Down'', ''Left'', ''Right''} \<and>
   draw_components
       \<lparr>round64 = (\<lambda>x. x), is_color = (\<lambda>c. c = ''#228B22''), mathtext_ok = (\<lambda>s. True)\<rparr>
       (attachment_points init) ''FLeft'' 0
       [(mc ''XYL'' ''circle'' ''#228B22'' ''Xyl'', ''Sideways'')] ([], []) =
     Inr ([Circle (0, 0) (1 / 2) ''#228B22'', Text (0, 0) ''Xyl'' 8], [(0, 0)]) \<and>
   draw_components
       \<lparr>round64 = (\<lambda>x. x), is_color = (\<lambda>c. c = ''#228B22''), mathtext_ok = (\<lambda>s. True)\<rparr>
       (attachment_points init) ''FLeft'' 0
       [(mc ''XYL'' ''circle'' ''#228B22'' ''Xyl'', [])] ([], []) =
     Inr ([Circle (0, 0) (1 / 2) ''#228B22'', Text (0, 0) ''Xyl'' 8], [(0, 0)])"
  using C4_unrecognized_direction_is_Right [of "''Sideways''"
      "\<lparr>round64 = (\<lambda>x. x), is_color = (\<lambda>c. c = ''#228B22''), mathtext_ok = (\<lambda>s. True)\<rparr>"
      "attachment_points init" "''FLeft''" 0
      "mc ''XYL'' ''circle'' ''#228B22'' ''Xyl''" "[]" "([], [])"]
    C4_unrecognized_direction_is_Right [of "[]"
      "\<lparr>round64 = (\<lambda>x. x), is_color = (\<lambda>c. c = ''#228B22''), mathtext_ok = (\<lambda>s. True)\<rparr>"
      "attachment_points init" "''FLeft''" 0
      "mc ''XYL'' ''circle'' ''#228B22'' ''Xyl''" "[]" "([], [])"]
  by (simp add: init_def default_attachment_points_def mc_def pt_def draw_shape_def
      direction_vector_def float_add_def float_mul_def Let_def)

text \<open>
  C6. From the default builder, attaching the substituent OH at FRight with direction
  Right succeeds, and FRight is registered at (1, 0). With the colors "lime" and "none"
  parsed by matplotlib and the numbers 0, 1 and 2 being floats, the rendering draws the
  circle of OH at (2, 0), after the scaffold at (0, 0).
\<close>

theorem C6_OH_at_FRight:
  "round64 E 0 = 0 \<Longrightarrow> round64 E 1 = 1 \<Longrightarrow> round64 E 2 = 2 \<Longrightarrow>
   is_color E ''lime'' \<Longrightarrow> is_color E ''none'' \<Longrightarrow>
   attach_component init ''FRight'' ''OH'' ''Right'' ''Substituent'' =
     (None, init\<lparr>molecule := (molecule init)\<lparr>attached_substituents :=
        [(''FRight'', [(mc ''OH'' ''circle'' ''none'' ''OH'', ''Right'')])]\<rparr>\<rparr>) \<and>
   attachment_points init ''FRight'' = Some \<lparr>point_name = ''FR'', position = (1, 0)\<rparr> \<and>
   draw_molecule E (snd (attach_component init ''FRight'' ''OH'' ''Right'' ''Substituent'')) =
     Inr ([FancyBboxPatch (float_sub E 0 (float_div E (round64 E (1 / 10)) 2),
                           float_sub E 0 (float_div E (round64 E (1 / 10)) 2))
             (round64 E (1 / 10)) (round64 E (1 / 10)) ''lime'',
           Text (0, 0) ''QA'' 13,
           Circle (2, 0) (round64 E (1 / 2)) ''none'', Text (2, 0) ''OH'' 8],
          [(0, 0), (2, 0)])"
  by (simp add: draw_molecule_def attach_component_def init_def default_attachment_points_def
      default_substituents_def append_attached_def mc_def pt_def draw_shape_def
      direction_vector_def float_add_def float_mul_def Let_def)

theorem C6_witness:
  "is_color \<lparr>round64 = (\<lambda>x. x), is_color = (\<lambda>c. c = ''lime'' \<or> c = ''none''),
        mathtext_ok = (\<lambda>s. True)\<rparr> ''lime'' \<and>
   is_color \<lparr>round64 = (\<lambda>x. x), is_color = (\<lambda>c. c = ''lime'' \<or> c = ''none''),
        mathtext_ok = (\<lambda>s. True)\<rparr> ''none'' \<and>
   attach_component init ''FRight'' ''OH'' ''Right'' ''Substituent'' =
     (None, init\<lparr>molecule := (molecule init)\<lparr>attached_substituents :=
        [(''FRight'', [(mc ''OH'' ''circle'' ''none'' ''OH'', ''Right'')])]\<rparr>\<rparr>) \<and>
   attachment_points init ''FRight'' = Some \<lparr>point_name = ''FR'', position = (1, 0)\<rparr> \<and>
   draw_molecule
     \<lparr>round64 = (\<lambda>x. x), is_color = (\<lambda>c. c = ''lime'' \<or> c = ''none''),
        mathtext_ok = (\<lambda>s. True)\<rparr>
     (snd (attach_component init ''FRight'' ''OH'' ''Right'' ''Substituent'')) =
     Inr ([FancyBboxPatch (- (1 / 20), - (1 / 20)) (1 / 10) (1 / 10) ''lime'',
           Text (0, 0) ''QA'' 13,
           Circle (2, 0) (1 / 2) ''none'', Text (2, 0) ''OH'' 8],
          [(0, 0), (2, 0)])"
  using C6_OH_at_FRight [of "\<lparr>round64 = (\<lambda>x. x), is_color = (\<lambda>c. c = ''lime'' \<or> c = ''none''),
        mathtext_ok = (\<lambda>s. True)\<rparr>"]
  by (auto simp: float_sub_def float_div_def)

text \<open>
  C2. At a registered point, the inner loop draws each component at the point's
  position plus the vector of its direction times 1.0, with the vectors of the
  specification's table, and records that position; it stops with an error only at a
  component whose color matplotlib does not parse. The counter of the loop does not
  occur in the result, and the loop started at any other counter does the same. Two
  components at one point with one direction are therefore drawn at the same
  coordinates.
\<close>

theorem C2_position_independent_of_index:
  "aps point = Some ap \<Longrightarrow>
     draw_components E aps point i comps (ax, ps) =
       (if list_all (\<lambda>(c, d). drawable E c) comps
        then Inr (ax @ spec_components E ap comps,
                  ps @ map (\<lambda>(c, d). spec_position E (position ap) d) comps)
        else Inl ValueError) \<and>
     draw_components E aps point i comps (ax, ps) =
       draw_components E aps point j comps (ax, ps)"
  using draw_components_spec [of aps point ap E i comps ax ps]
    draw_components_index [of E aps point i comps "(ax, ps)" j]
  by simp

theorem C2_witness:
  "attachment_points init ''Zero'' = Some \<lparr>point_name = ''Zero'', position = (0, 0)\<rparr> \<and>
   draw_components
       \<lparr>round64 = (\<lambda>x. x), is_color = (\<lambda>c. c = ''#228B22'' \<or> c = ''#DC143C''),
          mathtext_ok = (\<lambda>s. True)\<rparr>
       (attachment_points init) ''Zero'' 0
       [(mc ''XYL'' ''circle'' ''#228B22'' ''Xyl'', ''Up''),
        (mc ''FUC'' ''circle'' ''#DC143C'' ''Fuc'', ''Up'')] ([], [(0, 0)]) =
     Inr ([Circle (0, 1) (1 / 2) ''#228B22'', Text (0, 1) ''Xyl'' 8,
           Circle (0, 1) (1 / 2) ''#DC143C'', Text (0, 1) ''Fuc'' 8],
          [(0, 0), (0, 1), (0, 1)]) \<and>
   draw_components
       \<lparr>round64 = (\<lambda>x. x), is_color = (\<lambda>c. c = ''#228B22'' \<or> c = ''#DC143C''),
          mathtext_ok = (\<lambda>s. True)\<rparr>
       (attachment_points init) ''Zero'' 0
       [(mc ''XYL'' ''circle'' ''#228B22'' ''Xyl'', ''Up''),
        (mc ''X'' ''circle'' ''notacolor'' ''X'', ''Up'')] ([], [(0, 0)]) =
     Inl ValueError"
proof -
  have h: "attachment_points init ''Zero'' = Some \<lparr>point_name = ''Zero'', position = (0, 0)\<rparr>"
    by (simp add: init_def default_attachment_points_def pt_def)
  show ?thesis
    using h
      C2_position_independent_of_index [of "attachment_points init" "''Zero''"
        "\<lparr>point_name = ''Zero'', position = (0, 0)\<rparr>"
        "\<lparr>round64 = (\<lambda>x. x), is_color = (\<lambda>c. c = ''#228B22'' \<or> c = ''#DC143C''),
           mathtext_ok = (\<lambda>s. True)\<rparr>" 0
        "[(mc ''XYL'' ''circle'' ''#228B22'' ''Xyl'', ''Up''),
          (mc ''FUC'' ''circle'' ''#DC143C'' ''Fuc'', ''Up'')]" "[]" "[(0, 0)]" 0]
      C2_position_independent_of_index [of "attachment_points init" "''Zero''"
        "\<lparr>point_name = ''Zero'', position = (0, 0)\<rparr>"
        "\<lparr>round64 = (\<lambda>x. x), is_color = (\<lambda>c. c = ''#228B22'' \<or> c = ''#DC143C''),
           mathtext_ok = (\<lambda>s. True)\<rparr>" 0
        "[(mc ''XYL'' ''circle'' ''#228B22'' ''Xyl'', ''Up''),
          (mc ''X'' ''circle'' ''notacolor'' ''X'', ''Up'')]" "[]" "[(0, 0)]" 0]
    by (simp add: mc_def drawable_def VALID_SHAPES_def spec_components_def spec_shape_def
        spec_position_def spec_direction_vector_def float_add_def float_mul_def)
qed

section \<open>Order of drawing\<close>

text \<open>
  C8. In every reachable state \<open>visualize_molecule\<close> either returns a figure or raises
  \<open>ValueError\<close>. It returns a figure exactly when, of the scaffold and of every attached
  component, the color parses and the label can be laid out; the figure's artists are
  then, in this order: the scaffold's shape at (0, 0) in the scaffold's color and with
  its label; the shapes of all attached sugars, entry by entry and item by item; the
  shapes of all attached substituents, in the same way.
\<close>

theorem C8_scaffold_then_sugars_then_substituents:
  "reachable self \<Longrightarrow>
     fst (visualize_molecule E self) =
       (if list_all (renderable E)
             (scaffold (molecule self) #
              attached_components (attached_sugars (molecule self)) @
              attached_components (attached_substituents (molecule self)))
        then Inr \<lparr>figsize = (10, 4),
                  artists =
                    spec_shape E (scaffold (molecule self)) (0, 0) @
                    spec_attached E (attachment_points self) (attached_sugars (molecule self)) @
                    spec_attached E (attachment_points self)
                      (attached_substituents (molecule self))\<rparr>
        else Inl ValueError)"
proof -
  let ?aps = "attachment_points self"
  let ?sc = "scaffold (molecule self)"
  let ?su = "attached_sugars (molecule self)"
  let ?sb = "attached_substituents (molecule self)"
  let ?all = "?sc # attached_components ?su @ attached_components ?sb"
  assume "reachable self"
  then have reg: "points_registered self"
    by (rule reachable_points_registered)
  have ksu: "\<forall>k \<in> fst ` set ?su. ?aps k \<noteq> None"
    using reg by (simp add: points_registered_def)
  have ksb: "\<forall>k \<in> fst ` set ?sb. ?aps k \<noteq> None"
    using reg by (simp add: points_registered_def)
  have texts: "list_all (text_ok E)
                 (spec_shape E ?sc (0, 0) @ spec_attached E ?aps ?su @ spec_attached E ?aps ?sb)
               \<longleftrightarrow> list_all (\<lambda>c. shape c \<notin> set VALID_SHAPES \<or> mathtext_ok E (label c)) ?all"
    by (simp add: text_ok_spec_shape text_ok_spec_attached [OF ksu]
        text_ok_spec_attached [OF ksb])
  show ?thesis
  proof (cases "list_all (drawable E) ?all")
    case False
    then have "draw_molecule E self = Inl ValueError"
      using draw_molecule_spec [OF reg, of E] by blast
    moreover have "\<not> list_all (renderable E) ?all"
      using False by (simp only: renderable_iff [of E ?all] simp_thms)
    ultimately show ?thesis
      by (simp add: visualize_molecule_def)
  next
    case True
    then obtain ps where
      dm: "draw_molecule E self =
             Inr (spec_shape E ?sc (0, 0) @ spec_attached E ?aps ?su @ spec_attached E ?aps ?sb,
                  ps)"
      using draw_molecule_spec [OF reg, of E] by blast
    have "list_all (renderable E) ?all \<longleftrightarrow>
            list_all (text_ok E)
              (spec_shape E ?sc (0, 0) @ spec_attached E ?aps ?su @ spec_attached E ?aps ?sb)"
      using True by (simp only: renderable_iff [of E ?all] texts simp_thms)
    then show ?thesis
      by (simp add: visualize_molecule_def dm)
  qed
qed

theorem C8_witness:
  "reachable (snd (attach_component
       (snd (attach_component init ''FRight'' ''OH'' ''Right'' ''Substituent''))
       ''Zero'' ''XYL'' ''Up'' ''Sugar'')) \<and>
   fst (visualize_molecule
       \<lparr>round64 = (\<lambda>x. x), is_color = (\<lambda>c. c \<in> set [''lime'', ''none'', ''#228B22'']),
          mathtext_ok = (\<lambda>s. True)\<rparr>
       (snd (attach_component
         (snd (attach_component init ''FRight'' ''OH'' ''Right'' ''Substituent''))
         ''Zero'' ''XYL'' ''Up'' ''Sugar''))) =
     Inr \<lparr>figsize = (10, 4),
          artists = [FancyBboxPatch (- (1 / 20), - (1 / 20)) (1 / 10) (1 / 10) ''lime'',
                     Text (0, 0) ''QA'' 13,
                     Circle (0, 1) (1 / 2) ''#228B22'', Text (0, 1) ''Xyl'' 8,
                     Circle (2, 0) (1 / 2) ''none'', Text (2, 0) ''OH'' 8]\<rparr> \<and>
   reachable (snd (attach_component
       (snd (add_component plot_no_data_raises init ''X'' ''circle'' ''notacolor'' ''X'' ''Sugar''))
       ''Zero'' ''X'' ''Up'' ''Sugar'')) \<and>
   fst (visualize_molecule
       \<lparr>round64 = (\<lambda>x. x), is_color = (\<lambda>c. c \<in> set [''lime'', ''none'', ''#228B22'']),
          mathtext_ok = (\<lambda>s. True)\<rparr>
       (snd (attach_component
         (snd (add_component plot_no_data_raises init ''X'' ''circle'' ''notacolor'' ''X''
                 ''Sugar''))
         ''Zero'' ''X'' ''Up'' ''Sugar''))) =
     Inl ValueError"
proof -
  have r: "reachable (snd (attach_component
       (snd (attach_component init ''FRight'' ''OH'' ''Right'' ''Substituent''))
       ''Zero'' ''XYL'' ''Up'' ''Sugar''))"
    by (intro reachable_attach_component reachable_init)
  have r': "reachable (snd (attach_component
       (snd (add_component plot_no_data_raises init ''X'' ''circle'' ''notacolor'' ''X'' ''Sugar''))
       ''Zero'' ''X'' ''Up'' ''Sugar''))"
    by (intro reachable_attach_component reachable_add_component reachable_init)
  show ?thesis
    using r r'
      C8_scaffold_then_sugars_then_substituents [OF r,
        of "\<lparr>round64 = (\<lambda>x. x), is_color = (\<lambda>c. c \<in> set [''lime'', ''none'', ''#228B22'']),
              mathtext_ok = (\<lambda>s. True)\<rparr>"]
      C8_scaffold_then_sugars_then_substituents [OF r',
        of "\<lparr>round64 = (\<lambda>x. x), is_color = (\<lambda>c. c \<in> set [''lime'', ''none'', ''#228B22'']),
              mathtext_ok = (\<lambda>s. True)\<rparr>"]
    by (simp add: attach_component_def add_component_def plot_no_data_raises_def init_def
        default_attachment_points_def default_substituents_def default_sugars_def
        append_attached_def mc_def pt_def VALID_SHAPES_def renderable_def
        attached_components_def spec_attached_def spec_components_def spec_shape_def
        spec_position_def spec_direction_vector_def float_add_def float_mul_def float_sub_def
        float_div_def Let_def)
qed

end
